theory Spec2Isabelle
  imports Complex_Main "HOL-Library.Product_Lexorder" "HOL-Library.List_Lexorder" "HOL-Library.Char_ord"
begin

section \<open>Cells of a data frame\<close>

text \<open>
  The pipeline works on pandas data frames read from the CSV files
  \<^verbatim>\<open>products.csv\<close>, \<^verbatim>\<open>customers.csv\<close> and \<^verbatim>\<open>sales.csv\<close>. A frame is modelled as
  the list of its rows, in order, and a row as a record with one field per column.
  A cell that pandas shows as \<^verbatim>\<open>NaN\<close>, \<^verbatim>\<open>None\<close> or \<^verbatim>\<open>NaT\<close> is the null of its
  column type; a column that a frame does not (yet) have reads as null in every row.

  Numbers are exact rationals: the rounding of binary floating point is not part of
  the model. A calendar date is the triple (year, month, day), ordered
  lexicographically, which is its chronological order; the sales file carries dates
  without a time of day.
\<close>

type_synonym date = "nat \<times> nat \<times> nat"

text \<open>
  A cell of a column that should hold numbers but may hold text (the product price):
  a missing value, a number, or a string as it stands in the file.
\<close>

datatype cell = NaN | Num rat | Str string

text \<open>
  A cell of a date column: null, the text read from the file, or a parsed time stamp.
\<close>

datatype datecell = NaT | Text string | Stamp date

text \<open>A key cell: an integer as read from a CSV file or a string after normalisation.\<close>

datatype key = KInt int | KStr string

text \<open>
  \<^verbatim>\<open>pd.to_numeric(col, errors='coerce')\<close>: numbers stay, a string becomes the number
  it denotes or NaN. What a string denotes is decided by pandas, not by this
  repository, so the reading of strings is the parameter \<open>num_of\<close>.
\<close>

fun to_numeric :: "(string \<Rightarrow> rat option) \<Rightarrow> cell \<Rightarrow> cell" where
  "to_numeric num_of NaN = NaN"
| "to_numeric num_of (Num x) = Num x"
| "to_numeric num_of (Str s) = (case num_of s of None \<Rightarrow> NaN | Some x \<Rightarrow> Num x)"

text \<open>
  \<^verbatim>\<open>pd.to_datetime(col, errors='coerce')\<close>, with or without a \<^verbatim>\<open>format\<close>: the reading
  of a string as a date is the parameter \<open>date_of\<close>; what does not parse is NaT.
\<close>

fun to_datetime :: "(string \<Rightarrow> date option) \<Rightarrow> datecell \<Rightarrow> datecell" where
  "to_datetime date_of NaT = NaT"
| "to_datetime date_of (Stamp d) = Stamp d"
| "to_datetime date_of (Text s) = (case date_of s of None \<Rightarrow> NaT | Some d \<Rightarrow> Stamp d)"

text \<open>\<^verbatim>\<open>Series.fillna(v)\<close> on one cell of an optional column.\<close>

fun fillna :: "'a \<Rightarrow> 'a option \<Rightarrow> 'a option" where
  "fillna v None = Some v"
| "fillna v (Some x) = Some x"

text \<open>\<^verbatim>\<open>Series.isin(values)\<close> on one cell: a null cell is in no list of integers.\<close>

fun isin :: "int option \<Rightarrow> int list \<Rightarrow> bool" where
  "isin None vs = False"
| "isin (Some v) vs = (v \<in> set vs)"


section \<open>Sale rows\<close>

text \<open>
  A row of the sales frame. The columns of \<^verbatim>\<open>sales.csv\<close> are \<^verbatim>\<open>transaction_id\<close>,
  \<^verbatim>\<open>product_id\<close>, \<^verbatim>\<open>customer_id\<close>, \<^verbatim>\<open>quantity\<close> and \<^verbatim>\<open>transaction_date\<close>; the
  remaining columns are derived by the pipelines. The type of the product key is a
  parameter: an optional integer as read from the file, a string once
  \<^verbatim>\<open>transform_sales\<close> has normalised it.
\<close>

record 'k sale =
  transaction_id :: int
  product_id :: 'k
  customer_id :: "int option"
  quantity :: "int option"
  transaction_date :: datecell
  price :: cell
  revenue :: "rat option"
  total_sales_value :: "rat option"
  purchase_month :: "string option"

text \<open>
  The quantity repair shared by \<^verbatim>\<open>validate_sales_data\<close> and \<^verbatim>\<open>clean_sales\<close>:
  \<^verbatim>\<open>lambda x: max(x, 1) if x > 0 else 1\<close>. A NaN quantity is not greater than 0.
\<close>

fun repair_quantity :: "int option \<Rightarrow> int option" where
  "repair_quantity None = Some 1"
| "repair_quantity (Some x) = Some (if x > 0 then max x 1 else 1)"

text \<open>\<^verbatim>\<open>quantity * price\<close>, NaN as soon as one factor is.\<close>

fun times_price :: "int option \<Rightarrow> cell \<Rightarrow> rat option" where
  "times_price (Some q) (Num p) = Some (of_int q * p)"
| "times_price _ _ = None"


subsection \<open>\<^verbatim>\<open>etl_pipeline_with_validations.validate_sales_data\<close>\<close>

text \<open>
  \<^verbatim>\<open>df.dropna(subset=['product_id', 'customer_id', 'transaction_date'])\<close>: a row stays
  when none of the three cells is null.
\<close>

definition critical_present :: "int option sale \<Rightarrow> bool" where
  "critical_present r \<longleftrightarrow>
     sale.product_id r \<noteq> None \<and> sale.customer_id r \<noteq> None \<and> sale.transaction_date r \<noteq> NaT"

text \<open>
  \<^verbatim>\<open>df['product_id'].map(product_prices)\<close>: the price of the product in the dictionary,
  NaN for a key the dictionary does not have.
\<close>

fun map_prices :: "(int \<rightharpoonup> rat) \<Rightarrow> int option \<Rightarrow> cell" where
  "map_prices product_prices None = NaN"
| "map_prices product_prices (Some k) =
     (case product_prices k of None \<Rightarrow> NaN | Some p \<Rightarrow> Num p)"

definition validate_sales_data ::
  "int option sale list \<Rightarrow> int list \<Rightarrow> int list \<Rightarrow> (int \<rightharpoonup> rat) \<Rightarrow> int option sale list" where
  "validate_sales_data df valid_product_ids valid_customer_ids product_prices =
     (let df = filter critical_present df;
          df = map (\<lambda>r. r\<lparr>sale.quantity := repair_quantity (sale.quantity r)\<rparr>) df;
          df = filter (\<lambda>r. isin (sale.product_id r) valid_product_ids \<and>
                            isin (sale.customer_id r) valid_customer_ids) df;
          df = map (\<lambda>r. r\<lparr>sale.price := map_prices product_prices (sale.product_id r)\<rparr>) df;
          df = map (\<lambda>r. r\<lparr>sale.revenue := times_price (sale.quantity r) (sale.price r)\<rparr>) df
      in df)"


subsection \<open>\<^verbatim>\<open>load_data.clean_sales\<close>\<close>

text \<open>
  The function opens with a nested function of the same name whose body is the one
  logging call; the nested function is never called, and the statements that follow
  it are the body of the outer function. The date column is parsed with the format
  \<^verbatim>\<open>%Y-%m-%d\<close>; \<open>strptime\<close> stands for that parser.
\<close>

definition clean_sales :: "(string \<Rightarrow> date option) \<Rightarrow> int option sale list \<Rightarrow> int option sale list" where
  "clean_sales strptime df =
     (let df = map (\<lambda>r. r\<lparr>sale.product_id := fillna (- 1) (sale.product_id r)\<rparr>) df;
          df = map (\<lambda>r. r\<lparr>sale.customer_id := fillna (- 1) (sale.customer_id r)\<rparr>) df;
          df = map (\<lambda>r. r\<lparr>sale.transaction_date := to_datetime strptime (sale.transaction_date r)\<rparr>) df;
          df = map (\<lambda>r. r\<lparr>sale.transaction_date :=
                      (case sale.transaction_date r of NaT \<Rightarrow> Stamp (2000, 1, 1) | c \<Rightarrow> c)\<rparr>) df;
          df = map (\<lambda>r. r\<lparr>sale.quantity := repair_quantity (sale.quantity r)\<rparr>) df
      in df)"

text \<open>
  An instance of the date parser for closed examples: the ten characters
  \<^verbatim>\<open>YYYY-MM-DD\<close> with a month from 01 to 12 and a day from 01 to 31.
\<close>

definition digit_val :: "char \<Rightarrow> nat option" where
  "digit_val c = (let n = of_char c :: nat in if 48 \<le> n \<and> n \<le> 57 then Some (n - 48) else None)"

fun number_of_digits :: "nat \<Rightarrow> string \<Rightarrow> nat option" where
  "number_of_digits acc [] = Some acc"
| "number_of_digits acc (c # cs) =
     (case digit_val c of None \<Rightarrow> None | Some d \<Rightarrow> number_of_digits (10 * acc + d) cs)"

definition iso_date :: "string \<Rightarrow> date option" where
  "iso_date s =
     (if length s = 10 \<and> s ! 4 = CHR ''-'' \<and> s ! 7 = CHR ''-'' then
        (case (number_of_digits 0 (take 4 s), number_of_digits 0 (take 2 (drop 5 s)),
               number_of_digits 0 (drop 8 s)) of
           (Some y, Some m, Some d) \<Rightarrow>
             if 1 \<le> m \<and> m \<le> 12 \<and> 1 \<le> d \<and> d \<le> 31 then Some (y, m, d) else None
         | _ \<Rightarrow> None)
      else None)"



section \<open>Strings\<close>

text \<open>
  Python's \<^verbatim>\<open>str(i)\<close> for an integer: the decimal digits, with a minus sign for a
  negative number.
\<close>

definition digit_char :: "nat \<Rightarrow> char" where
  "digit_char d = char_of (48 + d)"

fun str_nat :: "nat \<Rightarrow> string" where
  "str_nat n = (if n < 10 then [digit_char n] else str_nat (n div 10) @ [digit_char (n mod 10)])"

declare str_nat.simps [simp del]

definition str_int :: "int \<Rightarrow> string" where
  "str_int i = (if i < 0 then CHR ''-'' # str_nat (nat (- i)) else str_nat (nat i))"

text \<open>
  \<^verbatim>\<open>str.strip()\<close>: leading and trailing white space is removed. A character of the
  model is a code point below 256; the white space among these is the blank, the
  control characters 9 to 13 and 28 to 31, the next-line character 133 and the
  no-break space 160.
\<close>

definition is_space :: "char \<Rightarrow> bool" where
  "is_space c =
     (let n = of_char c :: nat
      in n = 32 \<or> (9 \<le> n \<and> n \<le> 13) \<or> (28 \<le> n \<and> n \<le> 31) \<or> n = 133 \<or> n = 160)"

definition str_strip :: "string \<Rightarrow> string" where
  "str_strip s = rev (dropWhile is_space (rev (dropWhile is_space s)))"

text \<open>\<^verbatim>\<open>str.lower()\<close> and \<^verbatim>\<open>str.capitalize()\<close> on the letters of the ASCII range.\<close>

definition lower_char :: "char \<Rightarrow> char" where
  "lower_char c = (let n = of_char c :: nat in if 65 \<le> n \<and> n \<le> 90 then char_of (n + 32) else c)"

definition upper_char :: "char \<Rightarrow> char" where
  "upper_char c = (let n = of_char c :: nat in if 97 \<le> n \<and> n \<le> 122 then char_of (n - 32) else c)"

definition str_lower :: "string \<Rightarrow> string" where
  "str_lower s = map lower_char s"

fun str_capitalize :: "string \<Rightarrow> string" where
  "str_capitalize [] = []"
| "str_capitalize (c # cs) = upper_char c # map lower_char cs"



text \<open>
  \<^verbatim>\<open>astype(str)\<close> on a key cell, and on a cell of an object column that holds a
  string or \<^verbatim>\<open>None\<close>.
\<close>

fun astype_str :: "key \<Rightarrow> string" where
  "astype_str (KInt i) = str_int i"
| "astype_str (KStr s) = s"

fun astype_str_opt :: "string option \<Rightarrow> string" where
  "astype_str_opt None = ''None''"
| "astype_str_opt (Some s) = s"

text \<open>
  An instance of the number parser for closed examples: a decimal integer with an
  optional minus sign.
\<close>

fun int_literal :: "string \<Rightarrow> rat option" where
  "int_literal [] = None"
| "int_literal (c # cs) =
     (if c = CHR ''-'' then
        (if cs = [] then None else map_option (\<lambda>n. - of_nat n) (number_of_digits 0 cs))
      else map_option of_nat (number_of_digits 0 (c # cs)))"

declare int_literal.simps [simp del]

text \<open>
  \<^verbatim>\<open>Series.max()\<close>: the greatest value, NaN (here \<open>None\<close>) for a series without values.
\<close>

fun series_max :: "'a::linorder list \<Rightarrow> 'a option" where
  "series_max [] = None"
| "series_max (x # xs) = Some (fold max xs x)"


section \<open>Product rows and metadata\<close>

text \<open>
  A row of the products frame. The columns of \<^verbatim>\<open>products.csv\<close> are \<^verbatim>\<open>product_id\<close>
  (an integer), \<^verbatim>\<open>product_name\<close>, \<^verbatim>\<open>category\<close> and \<^verbatim>\<open>price\<close>; enrichment adds the
  metadata columns and \<^verbatim>\<open>transform_products\<close> the popularity score.
\<close>

record product =
  product_id :: key
  product_name :: "string option"
  category :: "string option"
  price :: cell
  product_id_api :: "string option"
  description :: "string option"
  rating :: "rat option"
  availability_status :: "string option"
  popularity_score :: "rat option"

text \<open>
  An object of a page of the metadata API, with the five fields the service returns.
  The identifiers are JSON numbers or strings, the texts JSON strings or null.
\<close>

record item =
  id :: key
  description :: "string option"
  rating :: cell
  availability_status :: "string option"
  product_id :: key

text \<open>A row of the metadata frame that \<^verbatim>\<open>fetch_product_metadata\<close> builds from the objects.\<close>

record metadata =
  id :: string
  description :: "string option"
  rating :: "rat option"
  availability_status :: "string option"
  product_id_api :: "string option"

text \<open>
  The metadata frame keeps its column labels beside its rows, since an empty frame
  still has labels.
\<close>

record metadata_frame =
  columns :: "string list"
  rows :: "metadata list"


subsection \<open>\<^verbatim>\<open>fetch_product_metadata\<close>\<close>

text \<open>
  The answer to \<^verbatim>\<open>requests.get\<close> for one page: a response with its status code and
  the decoded JSON list, or a \<^verbatim>\<open>RequestException\<close>. The service behind \<^verbatim>\<open>api_url\<close>
  is the function from page numbers to answers.
\<close>

datatype response = Response nat "item list" | RequestException

text \<open>
  The \<^verbatim>\<open>while page <= max_pages\<close> loop, with \<open>product_metadata\<close> the list accumulated
  so far. Every \<^verbatim>\<open>break\<close> returns the accumulator.
\<close>

function fetch_pages :: "(nat \<Rightarrow> response) \<Rightarrow> nat \<Rightarrow> nat \<Rightarrow> item list \<Rightarrow> item list" where
  "fetch_pages api max_pages page product_metadata =
     (if page \<le> max_pages then
        (case api page of
           Response status_code data \<Rightarrow>
             if status_code = 200 then
               (if data = [] then product_metadata
                else fetch_pages api max_pages (page + 1) (product_metadata @ data))
             else product_metadata
         | RequestException \<Rightarrow> product_metadata)
      else product_metadata)"
  by pat_completeness auto
termination
  by (relation "measure (\<lambda>(api, max_pages, page, acc). Suc max_pages - page)") auto

declare fetch_pages.simps [simp del]

text \<open>
  The normalisation of one object: \<^verbatim>\<open>product_id\<close> is renamed \<^verbatim>\<open>product_id_api\<close>, the
  identifiers and texts go through \<^verbatim>\<open>astype(str)\<close> (which leaves no null behind for
  the \<^verbatim>\<open>fillna\<close> that follows), the rating through \<^verbatim>\<open>to_numeric\<close> and \<^verbatim>\<open>fillna(0.0)\<close>.
\<close>

fun number_of :: "cell \<Rightarrow> rat option" where
  "number_of (Num x) = Some x"
| "number_of _ = None"

definition normalize_item :: "(string \<Rightarrow> rat option) \<Rightarrow> item \<Rightarrow> metadata" where
  "normalize_item num_of it =
     \<lparr> metadata.id = str_strip (astype_str (item.id it)),
       metadata.description =
         fillna ''No description available'' (Some (astype_str_opt (item.description it))),
       metadata.rating = fillna 0 (number_of (to_numeric num_of (item.rating it))),
       metadata.availability_status =
         fillna ''Unknown'' (Some (astype_str_opt (item.availability_status it))),
       metadata.product_id_api = fillna [] (Some (astype_str (item.product_id it))) \<rparr>"

definition fetch_product_metadata ::
  "(string \<Rightarrow> rat option) \<Rightarrow> (nat \<Rightarrow> response) \<Rightarrow> nat \<Rightarrow> metadata_frame" where
  "fetch_product_metadata num_of api max_pages =
     (let product_metadata = fetch_pages api max_pages 1 []
      in if product_metadata = [] then
           \<lparr> columns = [''id'', ''description'', ''rating'', ''availability_status'', ''product_id''],
             rows = [] \<rparr>
         else
           \<lparr> columns = [''id'', ''description'', ''rating'', ''availability_status'', ''product_id_api''],
             rows = map (normalize_item num_of) product_metadata \<rparr>)"

text \<open>
  A page that lets the loop go on: status 200 with a list that is not empty. The pages
  before the first page that is not of this kind are the ones the loop accumulates.
\<close>

definition page_continues :: "(nat \<Rightarrow> response) \<Rightarrow> nat \<Rightarrow> bool" where
  "page_continues api page =
     (case api page of Response status_code data \<Rightarrow> status_code = 200 \<and> data \<noteq> []
      | RequestException \<Rightarrow> False)"

definition page_items :: "(nat \<Rightarrow> response) \<Rightarrow> nat \<Rightarrow> item list" where
  "page_items api page = (case api page of Response status_code data \<Rightarrow> data | RequestException \<Rightarrow> [])"


subsection \<open>\<^verbatim>\<open>enrich_product_data\<close>\<close>

text \<open>\<^verbatim>\<open>DataFrame.empty\<close>: no rows or no columns.\<close>

definition frame_empty :: "metadata_frame \<Rightarrow> bool" where
  "frame_empty df \<longleftrightarrow> rows df = [] \<or> columns df = []"

text \<open>
  \<^verbatim>\<open>pd.merge(products_df, metadata_df, left_on='product_id', right_on='id', how='left')\<close>:
  the product rows in their order, each once for every metadata row with its key, in
  the order of the metadata rows, and once with null metadata cells when no metadata
  row has its key.
\<close>

definition attach :: "product \<Rightarrow> metadata \<Rightarrow> product" where
  "attach p m = p\<lparr> product.description := metadata.description m,
                   product.rating := metadata.rating m,
                   product.availability_status := metadata.availability_status m,
                   product.product_id_api := metadata.product_id_api m \<rparr>"

definition unmatched :: "product \<Rightarrow> product" where
  "unmatched p = p\<lparr> product.description := None, product.rating := None,
                    product.availability_status := None, product.product_id_api := None \<rparr>"

definition matches :: "product \<Rightarrow> metadata list \<Rightarrow> metadata list" where
  "matches p ms = filter (\<lambda>m. product.product_id p = KStr (metadata.id m)) ms"

definition merge_left :: "product list \<Rightarrow> metadata list \<Rightarrow> product list" where
  "merge_left ps ms =
     concat (map (\<lambda>p. if matches p ms = [] then [unmatched p] else map (attach p) (matches p ms)) ps)"

definition enrich_product_data :: "product list \<Rightarrow> metadata_frame \<Rightarrow> product list" where
  "enrich_product_data products_df metadata_df =
     (if frame_empty metadata_df then
        map (\<lambda>p. p\<lparr> product.description := Some ''No description available'',
                     product.rating := Some 0,
                     product.availability_status := Some ''Unknown'' \<rparr>) products_df
      else
        (let products_df =
               map (\<lambda>p. p\<lparr>product.product_id := KStr (str_strip (astype_str (product.product_id p)))\<rparr>)
                 products_df;
             metadata_rows = map (\<lambda>m. m\<lparr>metadata.id := str_strip (metadata.id m)\<rparr>) (rows metadata_df);
             enriched_df = merge_left products_df metadata_rows;
             enriched_df = map (\<lambda>p. p\<lparr>product.description :=
                                 fillna ''No description available'' (product.description p)\<rparr>) enriched_df;
             enriched_df = map (\<lambda>p. p\<lparr>product.rating := fillna 0 (product.rating p)\<rparr>) enriched_df;
             enriched_df = map (\<lambda>p. p\<lparr>product.availability_status :=
                                 fillna ''Unknown'' (product.availability_status p)\<rparr>) enriched_df
         in enriched_df))"


section \<open>Product cleaning and transformation\<close>

subsection \<open>\<^verbatim>\<open>load_data.clean_products\<close>\<close>

text \<open>\<^verbatim>\<open>fillna(0)\<close> and \<^verbatim>\<open>clip(lower=0)\<close> on a numeric cell.\<close>

fun fillna_cell :: "rat \<Rightarrow> cell \<Rightarrow> cell" where
  "fillna_cell v NaN = Num v"
| "fillna_cell v c = c"

fun clip_lower :: "rat \<Rightarrow> cell \<Rightarrow> cell" where
  "clip_lower lo (Num x) = Num (max x lo)"
| "clip_lower lo c = c"

definition valid_categories :: "string list" where
  "valid_categories = [''Electronics'', ''Clothing'', ''Books'', ''Food'']"

definition clean_products :: "(string \<Rightarrow> rat option) \<Rightarrow> product list \<Rightarrow> product list" where
  "clean_products num_of df =
     (let df = map (\<lambda>p. p\<lparr>product.product_name := fillna ''Unknown'' (product.product_name p)\<rparr>) df;
          df = map (\<lambda>p. p\<lparr>product.category :=
                      (case product.category p of
                         Some x \<Rightarrow> if x \<in> set valid_categories then Some x else Some ''Other''
                       | None \<Rightarrow> Some ''Other'')\<rparr>) df;
          df = map (\<lambda>p. p\<lparr>product.price := to_numeric num_of (product.price p)\<rparr>) df;
          df = map (\<lambda>p. p\<lparr>product.price := clip_lower 0 (fillna_cell 0 (product.price p))\<rparr>) df
      in df)"


subsection \<open>\<^verbatim>\<open>etl_data_enrichment.transform_products\<close>\<close>

text \<open>
  The product key of a sale after
  \<^verbatim>\<open>pd.to_numeric(..., errors='coerce').astype('Int64').astype(str).str.strip()\<close>: the
  decimal digits of the integer, \<^verbatim>\<open><NA>\<close> for a missing key.
\<close>

definition sales_key :: "int option \<Rightarrow> string" where
  "sales_key k = str_strip (case k of None \<Rightarrow> ''<NA>'' | Some i \<Rightarrow> str_int i)"

text \<open>
  \<^verbatim>\<open>sales_df.groupby('product_id')['quantity'].sum()\<close>: one entry per key, in the sorted
  order of the keys, with the sum of the quantities of the key; a NaN quantity adds
  nothing.
\<close>

definition quantity_or_zero :: "int option \<Rightarrow> int" where
  "quantity_or_zero q = (case q of None \<Rightarrow> 0 | Some v \<Rightarrow> v)"

definition group_sum :: "(string \<times> int option) list \<Rightarrow> string \<Rightarrow> int" where
  "group_sum kqs k = sum_list (map (quantity_or_zero \<circ> snd) (filter (\<lambda>kq. fst kq = k) kqs))"

definition groupby_sum :: "(string \<times> int option) list \<Rightarrow> (string \<times> int) list" where
  "groupby_sum kqs = map (\<lambda>k. (k, group_sum kqs k)) (sort (remdups (map fst kqs)))"

text \<open>
  \<^verbatim>\<open>total_sales_quantity.get(x, 0)\<close> on the series indexed by strings. A string is
  looked up as a label. An integer (the product key when the enrichment was skipped)
  is not a label of a string index: pandas 2 reads it as a position, from the end when
  negative, and \<^verbatim>\<open>get\<close> returns the default when the position is out of range.
\<close>

fun series_get :: "(string \<times> int) list \<Rightarrow> key \<Rightarrow> int" where
  "series_get s (KStr k) = (case map_of s k of None \<Rightarrow> 0 | Some v \<Rightarrow> v)"
| "series_get s (KInt i) =
     (let n = int (length s)
      in if 0 \<le> i \<and> i < n then snd (s ! nat i)
         else if - n \<le> i \<and> i < 0 then snd (s ! nat (n + i))
         else 0)"

fun cell_abs :: "cell \<Rightarrow> cell" where
  "cell_abs (Num x) = Num \<bar>x\<bar>"
| "cell_abs c = c"

text \<open>
  The function also rewrites the \<^verbatim>\<open>product_id\<close> column of the caller's sales frame
  with the normalised keys; it returns the products frame only, which is what the
  model returns.
\<close>

definition transform_products ::
  "(string \<Rightarrow> rat option) \<Rightarrow> product list \<Rightarrow> int option sale list \<Rightarrow> product list" where
  "transform_products num_of products_df sales_df =
     (let sales_keys = map (\<lambda>r. (sales_key (sale.product_id r), sale.quantity r)) sales_df;
          products_df = map (\<lambda>p. p\<lparr>product.category :=
                               map_option (str_capitalize \<circ> str_lower) (product.category p)\<rparr>) products_df;
          products_df = map (\<lambda>p. p\<lparr>product.price := cell_abs (to_numeric num_of (product.price p))\<rparr>)
                          products_df;
          total_sales_quantity = groupby_sum sales_keys;
          max_sales_quantity = series_max (map snd total_sales_quantity)
      in case max_sales_quantity of
           Some m \<Rightarrow>
             if m > 0 then
               map (\<lambda>p. p\<lparr>product.popularity_score :=
                      fillna 0 (Some (of_int (series_get total_sales_quantity (product.product_id p))
                                        / of_int m * 100))\<rparr>) products_df
             else map (\<lambda>p. p\<lparr>product.popularity_score := Some 0\<rparr>) products_df
         | None \<Rightarrow> map (\<lambda>p. p\<lparr>product.popularity_score := Some 0\<rparr>) products_df)"


section \<open>Sale transformation\<close>

subsection \<open>\<^verbatim>\<open>etl_data_enrichment.transform_sales\<close>\<close>







section \<open>The incremental load and its watermark\<close>

text \<open>
  The part of the database that \<^verbatim>\<open>incremental_pipeline\<close> reads and writes: the rows of
  the \<^verbatim>\<open>sales\<close> table and the \<^verbatim>\<open>last_processed_date\<close> of the row with id 1 of
  \<^verbatim>\<open>etl_state\<close>, the only row the pipeline ever writes; \<open>None\<close> when there is no row.
  A failing connection to the database is not part of the model.
\<close>

record database =
  sales_table :: "int option sale list"
  etl_state :: "date option"

text \<open>
  A connection obtained with \<^verbatim>\<open>engine.connect()\<close> (SQLAlchemy 2): statements work on
  the connection's own view of the data, \<^verbatim>\<open>commit\<close> makes the view the stored data, and
  leaving the \<^verbatim>\<open>with\<close> block closes the connection, which rolls back what was not
  committed.
\<close>

record connection =
  stored :: database
  view :: database

definition engine_connect :: "database \<Rightarrow> connection" where
  "engine_connect db = \<lparr> stored = db, view = db \<rparr>"

definition connection_commit :: "connection \<Rightarrow> connection" where
  "connection_commit conn = conn\<lparr>stored := view conn\<rparr>"

definition connection_close :: "connection \<Rightarrow> database" where
  "connection_close conn = stored conn"

text \<open>
  \<^verbatim>\<open>INSERT ... VALUES (1, new_date) ON CONFLICT (id) DO UPDATE SET last_processed_date = new_date\<close>
  executed on a connection: the statement compares nothing.
\<close>

definition execute_upsert :: "connection \<Rightarrow> date \<Rightarrow> connection" where
  "execute_upsert conn new_date = conn\<lparr>view := (view conn)\<lparr>etl_state := Some new_date\<rparr>\<rparr>"

text \<open>The records written to the log of the incremental pipeline, with their levels.\<close>

datatype error = TypeError


datatype log_record =
    Updated_last_processed_date date
  | No_new_records_to_process
  | Error_processing_sales_data error


definition get_last_processed_date :: "database \<Rightarrow> date option" where
  "get_last_processed_date db = etl_state db"

text \<open>
  \<^verbatim>\<open>update_last_processed_date\<close> opens a connection with \<^verbatim>\<open>engine.connect()\<close>, executes
  the upsert, logs, and leaves the \<^verbatim>\<open>with\<close> block; it never commits. (The sibling
  functions \<^verbatim>\<open>create_watermark_table\<close> and \<^verbatim>\<open>update_etl_state_table\<close> use
  \<^verbatim>\<open>engine.begin()\<close>, which commits.) The result is the database afterwards and the
  records logged.
\<close>

definition update_last_processed_date :: "database \<Rightarrow> date \<Rightarrow> database \<times> log_record list" where
  "update_last_processed_date db new_date =
     (let conn = engine_connect db;
          conn = execute_upsert conn new_date
      in (connection_close conn, [Updated_last_processed_date new_date]))"

fun stamp_of :: "datecell \<Rightarrow> date option" where
  "stamp_of (Stamp d) = Some d"
| "stamp_of _ = None"

text \<open>
  \<^verbatim>\<open>sales_df['transaction_date'] > last_processed_date\<close>: the column is a
  \<^verbatim>\<open>datetime64\<close> column and the value read from the \<^verbatim>\<open>DATE\<close> column of the database is
  a \<^verbatim>\<open>datetime.date\<close>; pandas 2 refuses to order the two and raises \<^verbatim>\<open>TypeError\<close>.
\<close>

definition series_gt :: "datecell list \<Rightarrow> date \<Rightarrow> error + bool list" where
  "series_gt column last_processed_date = Inl TypeError"

text \<open>\<^verbatim>\<open>sales_df[mask]\<close>: the rows at which the Boolean series is true.\<close>

definition select_rows :: "'a list \<Rightarrow> bool list \<Rightarrow> 'a list" where
  "select_rows df flags = map fst (filter snd (zip df flags))"

text \<open>
  \<^verbatim>\<open>new_sales_df.to_sql('sales', con=engine, if_exists='append')\<close>: pandas runs the
  insert in a transaction of its own and commits it.
\<close>

definition to_sql_append :: "database \<Rightarrow> int option sale list \<Rightarrow> database" where
  "to_sql_append db df = db\<lparr>sales_table := sales_table db @ df\<rparr>"

text \<open>
  The body of the \<^verbatim>\<open>try\<close> block of \<^verbatim>\<open>process_sales_data\<close>: an exception, or the
  database afterwards with the records logged. The one exception of the model is
  raised before anything is written.
\<close>

definition process_sales_data_body ::
  "(string \<Rightarrow> date option) \<Rightarrow> int option sale list \<Rightarrow> database
     \<Rightarrow> error + database \<times> log_record list" where
  "process_sales_data_body date_of sales_file db =
     (let sales_df = map (\<lambda>r. r\<lparr>sale.transaction_date :=
                             to_datetime date_of (sale.transaction_date r)\<rparr>) sales_file;
          sales_df = filter (\<lambda>r. sale.transaction_date r \<noteq> NaT) sales_df;
          last_processed_date = get_last_processed_date db
      in case (case last_processed_date of
                 Some w \<Rightarrow>
                   (case series_gt (map sale.transaction_date sales_df) w of
                      Inl e \<Rightarrow> Inl e
                    | Inr flags \<Rightarrow> Inr (select_rows sales_df flags))
               | None \<Rightarrow> Inr sales_df) of
           Inl e \<Rightarrow> Inl e
         | Inr new_sales_df \<Rightarrow>
             if new_sales_df \<noteq> [] then
               (let db = to_sql_append db new_sales_df
                in case series_max (List.map_filter (stamp_of \<circ> sale.transaction_date) new_sales_df) of
                     Some max_date \<Rightarrow> Inr (update_last_processed_date db max_date)
                   | None \<Rightarrow> Inr (db, []))
             else Inr (db, [No_new_records_to_process]))"

text \<open>
  \<^verbatim>\<open>process_sales_data\<close>: the \<^verbatim>\<open>except Exception\<close> clause logs the error and the function
  returns.
\<close>

definition process_sales_data ::
  "(string \<Rightarrow> date option) \<Rightarrow> int option sale list \<Rightarrow> database \<Rightarrow> database \<times> log_record list" where
  "process_sales_data date_of sales_file db =
     (case process_sales_data_body date_of sales_file db of
        Inl e \<Rightarrow> (db, [Error_processing_sales_data e])
      | Inr result \<Rightarrow> result)"

text \<open>
  A sequence of runs of the incremental load, one sales file per run, and a sequence
  of calls of the advance operation, one date per call.
\<close>

definition runs :: "(string \<Rightarrow> date option) \<Rightarrow> int option sale list list \<Rightarrow> database \<Rightarrow> database" where
  "runs date_of files db = fold (\<lambda>f db. fst (process_sales_data date_of f db)) files db"









section \<open>Example inputs\<close>

text \<open>A row as read from \<^verbatim>\<open>sales.csv\<close>: the derived columns are not there yet.\<close>

definition csv_sale :: "int \<Rightarrow> int option \<Rightarrow> int option \<Rightarrow> int option \<Rightarrow> datecell \<Rightarrow> int option sale" where
  "csv_sale t p c q d =
     \<lparr> transaction_id = t, product_id = p, customer_id = c, quantity = q, transaction_date = d,
       price = NaN, revenue = None, total_sales_value = None, purchase_month = None \<rparr>"

text \<open>
  Four sales with parsed dates: a valid one, the sale of the scenario (customer 99 is
  unknown, the quantity negative), one without product key, and a valid one with
  quantity 0.
\<close>

definition example_sales :: "int option sale list" where
  "example_sales =
     [csv_sale 1 (Some 1) (Some 7) (Some 3) (Stamp (2024, 5, 1)),
      csv_sale 5 (Some 1) (Some 99) (Some (- 3)) (Stamp (2024, 5, 2)),
      csv_sale 6 None (Some 7) (Some 2) (Stamp (2024, 5, 3)),
      csv_sale 8 (Some 2) (Some 8) (Some 0) (Stamp (2024, 6, 1))]"

definition example_prices :: "int \<rightharpoonup> rat" where
  "example_prices = [1 \<mapsto> 10, 2 \<mapsto> 5 / 2]"

text \<open>Rows as they stand in the file, with the two kinds of bad date the generator writes.\<close>

definition example_file :: "int option sale list" where
  "example_file =
     [csv_sale 1 (Some 1) (Some 7) (Some 3) (Text ''2024-05-01''),
      csv_sale 2 None None (Some (- 3)) (Text ''2024/13/40''),
      csv_sale 3 (Some 2) None None (Text ''InvalidDate''),
      csv_sale 4 (Some 2) (Some 8) (Some 0) (Text ''2024-06-01'')]"

text \<open>
  Three objects of the metadata service, and a service whose first page holds two of
  them, whose second page answers with status 500 and whose later pages would hold
  the third; a service that cannot be reached.
\<close>

definition item1 :: item where
  "item1 = \<lparr> item.id = KStr ''1'', item.description = Some ''A lamp'', item.rating = Num (9 / 2),
             item.availability_status = Some ''In stock'', item.product_id = KInt 1 \<rparr>"

definition item2 :: item where
  "item2 = \<lparr> item.id = KInt 2, item.description = None, item.rating = Str ''n/a'',
             item.availability_status = Some ''Sold out'', item.product_id = KInt 2 \<rparr>"

definition item3 :: item where
  "item3 = \<lparr> item.id = KStr ''3'', item.description = Some ''A chair'', item.rating = NaN,
             item.availability_status = None, item.product_id = KInt 3 \<rparr>"

definition example_api :: "nat \<Rightarrow> response" where
  "example_api page =
     (if page = 1 then Response 200 [item1, item2]
      else if page = 2 then Response 500 []
      else Response 200 [item3])"

definition unreachable_api :: "nat \<Rightarrow> response" where
  "unreachable_api page = RequestException"

text \<open>A row as read from \<^verbatim>\<open>products.csv\<close>: the enrichment and the score are not there yet.\<close>

definition csv_product :: "int \<Rightarrow> string option \<Rightarrow> string option \<Rightarrow> cell \<Rightarrow> product" where
  "csv_product i n c p =
     \<lparr> product.product_id = KInt i, product.product_name = n, product.category = c,
       product.price = p, product.product_id_api = None, product.description = None,
       product.rating = None, product.availability_status = None,
       product.popularity_score = None \<rparr>"

text \<open>
  Three products: the product of the scenario (no name, category Toys, price
  \<^verbatim>\<open>abc\<close>), one with a negative price and one whose price is the text \<^verbatim>\<open>12\<close>.
\<close>

definition example_products :: "product list" where
  "example_products =
     [csv_product 1 None (Some ''Toys'') (Str ''abc''),
      csv_product 2 (Some ''Lamp'') (Some ''Electronics'') (Num (- 5)),
      csv_product 7 (Some ''Pen'') (Some ''books'') (Str ''12'')]"

definition metadata_row :: "string \<Rightarrow> string \<Rightarrow> rat \<Rightarrow> metadata" where
  "metadata_row i d r =
     \<lparr> metadata.id = i, metadata.description = Some d, metadata.rating = Some r,
       metadata.availability_status = Some ''In stock'', metadata.product_id_api = Some i \<rparr>"

definition metadata_columns :: "string list" where
  "metadata_columns = [''id'', ''description'', ''rating'', ''availability_status'', ''product_id_api'']"

text \<open>Metadata with one row per key, and metadata in which the key 1 occurs twice.\<close>

definition example_metadata :: metadata_frame where
  "example_metadata =
     \<lparr> columns = metadata_columns,
       rows = [metadata_row ''1'' ''A lamp'' (9 / 2), metadata_row ''2'' ''A chair'' 3] \<rparr>"

definition duplicate_metadata :: metadata_frame where
  "duplicate_metadata =
     \<lparr> columns = metadata_columns,
       rows = [metadata_row ''1'' ''A lamp'' (9 / 2), metadata_row ''1'' ''A newer lamp'' 4] \<rparr>"

text \<open>
  A database whose watermark is 1 June 2024, a database without watermark, and a
  sales file with two rows after 1 June 2024.
\<close>

definition example_db :: database where
  "example_db = \<lparr> sales_table = [], etl_state = Some (2024, 6, 1) \<rparr>"

definition empty_db :: database where
  "empty_db = \<lparr> sales_table = [], etl_state = None \<rparr>"

definition later_file :: "int option sale list" where
  "later_file =
     [csv_sale 10 (Some 1) (Some 7) (Some 1) (Text ''2024-06-01''),
      csv_sale 11 (Some 2) (Some 8) (Some 2) (Text ''2024-07-15''),
      csv_sale 12 (Some 2) (Some 8) (Some 2) (Text ''2024-06-20''),
      csv_sale 13 (Some 1) (Some 7) (Some 5) (Text ''InvalidDate'')]"






section \<open>Validation and cleaning of sales\<close>

lemma isin_iff: "isin x vs \<longleftrightarrow> (\<exists>v. x = Some v \<and> v \<in> set vs)"
  by (cases x) auto

lemma validate_sales_data_eq:
  "validate_sales_data df vp vc prices =
     map (\<lambda>r. r\<lparr> sale.quantity := repair_quantity (sale.quantity r),
                  sale.price := map_prices prices (sale.product_id r),
                  sale.revenue := times_price (repair_quantity (sale.quantity r))
                                    (map_prices prices (sale.product_id r)) \<rparr>)
       (filter (\<lambda>r. critical_present r \<and> isin (sale.product_id r) vp \<and> isin (sale.customer_id r) vc) df)"
  unfolding validate_sales_data_def Let_def
  by (simp add: filter_map comp_def conj_commute conj_left_commute)

lemma clean_sales_eq:
  "clean_sales strptime df =
     map (\<lambda>r. r\<lparr> sale.product_id := fillna (- 1) (sale.product_id r),
                  sale.customer_id := fillna (- 1) (sale.customer_id r),
                  sale.transaction_date :=
                    (case to_datetime strptime (sale.transaction_date r) of
                       NaT \<Rightarrow> Stamp (2000, 1, 1) | c \<Rightarrow> c),
                  sale.quantity := repair_quantity (sale.quantity r) \<rparr>) df"
  unfolding clean_sales_def Let_def by (simp add: comp_def)

lemma repair_quantity_floor: "\<exists>q. repair_quantity x = Some q \<and> 1 \<le> q"
  by (cases x) auto

text \<open>
  Claim C4. Every row that \<^verbatim>\<open>validate_sales_data\<close> returns has a product key in the list
  of valid product keys and a customer key in the list of valid customer keys. The rows
  returned are, in order, the rows of the input whose three critical cells are present
  and that pass both membership checks: a row failing either check is excluded.
\<close>

theorem validate_sales_data_referential_integrity:
  "(\<forall>r \<in> set (validate_sales_data df valid_product_ids valid_customer_ids product_prices).
      \<exists>p c. sale.product_id r = Some p \<and> p \<in> set valid_product_ids \<and>
            sale.customer_id r = Some c \<and> c \<in> set valid_customer_ids) \<and>
   map sale.transaction_id (validate_sales_data df valid_product_ids valid_customer_ids product_prices) =
   map sale.transaction_id
     (filter (\<lambda>r. critical_present r \<and> isin (sale.product_id r) valid_product_ids \<and>
                    isin (sale.customer_id r) valid_customer_ids) df)"
  by (auto simp: validate_sales_data_eq isin_iff comp_def)

lemma iso1: "iso_date ''2024-05-01'' = Some (2024, 5, 1)"
  by (simp add: iso_date_def digit_val_def)
lemma iso2: "iso_date ''2024/13/40'' = None"
  by (simp add: iso_date_def digit_val_def)
lemma iso3: "iso_date ''InvalidDate'' = None"
  by (simp add: iso_date_def digit_val_def)
lemma iso4: "iso_date ''2024-06-01'' = Some (2024, 6, 1)"
  by (simp add: iso_date_def digit_val_def)

theorem validate_sales_data_referential_integrity_witness:
  "map sale.transaction_id (validate_sales_data example_sales [1, 2] [7, 8] example_prices) = [1, 8] \<and>
   (\<exists>p c. sale.product_id (last (validate_sales_data example_sales [1, 2] [7, 8] example_prices)) = Some p \<and>
          p \<in> set [1, 2] \<and>
          sale.customer_id (last (validate_sales_data example_sales [1, 2] [7, 8] example_prices)) = Some c \<and>
          c \<in> set [7, 8])"
proof -
  let ?out = "validate_sales_data example_sales [1, 2] [7, 8] example_prices"
  note inst = validate_sales_data_referential_integrity [of example_sales "[1, 2]" "[7, 8]" example_prices]
  have ids: "map sale.transaction_id ?out = [1, 8]"
    using inst by (simp add: example_sales_def csv_sale_def critical_present_def)
  then have "?out \<noteq> []" by auto
  then have "last ?out \<in> set ?out" by simp
  with inst ids show ?thesis by blast
qed


text \<open>
  Claim C5. After \<^verbatim>\<open>validate_sales_data\<close> and after \<^verbatim>\<open>clean_sales\<close> every row has a
  quantity of at least 1. A quantity that is not positive (or missing) is set to 1 and a
  positive one is kept; the rows that survive are chosen by the critical cells and the
  key checks alone in \<^verbatim>\<open>validate_sales_data\<close>, and \<^verbatim>\<open>clean_sales\<close> keeps every row, so
  no row is dropped for its quantity.
\<close>

theorem quantity_floor:
  "(\<forall>r \<in> set (validate_sales_data df valid_product_ids valid_customer_ids product_prices).
      \<exists>q. sale.quantity r = Some q \<and> 1 \<le> q) \<and>
   (\<forall>r \<in> set (clean_sales strptime df). \<exists>q. sale.quantity r = Some q \<and> 1 \<le> q) \<and>
   map sale.quantity (validate_sales_data df valid_product_ids valid_customer_ids product_prices) =
     map (\<lambda>r. case sale.quantity r of Some q \<Rightarrow> Some (if q \<le> 0 then 1 else q) | None \<Rightarrow> Some 1)
       (filter (\<lambda>r. critical_present r \<and> isin (sale.product_id r) valid_product_ids \<and>
                      isin (sale.customer_id r) valid_customer_ids) df) \<and>
   map sale.quantity (clean_sales strptime df) =
     map (\<lambda>r. case sale.quantity r of Some q \<Rightarrow> Some (if q \<le> 0 then 1 else q) | None \<Rightarrow> Some 1) df"
proof -
  have rq: "repair_quantity x = (case x of Some q \<Rightarrow> Some (if q \<le> 0 then 1 else q) | None \<Rightarrow> Some 1)" for x
    by (cases x) auto
  have a: "\<forall>r \<in> set (validate_sales_data df valid_product_ids valid_customer_ids product_prices).
      \<exists>q. sale.quantity r = Some q \<and> 1 \<le> q"
    using repair_quantity_floor by (auto simp: validate_sales_data_eq)
  have b: "\<forall>r \<in> set (clean_sales strptime df). \<exists>q. sale.quantity r = Some q \<and> 1 \<le> q"
    using repair_quantity_floor by (auto simp: clean_sales_eq)
  have c: "map sale.quantity (validate_sales_data df valid_product_ids valid_customer_ids product_prices) =
     map (\<lambda>r. case sale.quantity r of Some q \<Rightarrow> Some (if q \<le> 0 then 1 else q) | None \<Rightarrow> Some 1)
       (filter (\<lambda>r. critical_present r \<and> isin (sale.product_id r) valid_product_ids \<and>
                      isin (sale.customer_id r) valid_customer_ids) df)"
    by (simp add: validate_sales_data_eq comp_def rq)
  have d: "map sale.quantity (clean_sales strptime df) =
     map (\<lambda>r. case sale.quantity r of Some q \<Rightarrow> Some (if q \<le> 0 then 1 else q) | None \<Rightarrow> Some 1) df"
    by (simp add: clean_sales_eq comp_def rq)
  from a b c d show ?thesis by blast
qed

theorem quantity_floor_witness:
  "map sale.quantity (validate_sales_data example_sales [1, 2] [7, 8] example_prices) = [Some 3, Some 1] \<and>
   map sale.quantity (clean_sales iso_date example_file) = [Some 3, Some 1, Some 1, Some 1] \<and>
   (\<exists>q. sale.quantity (last (validate_sales_data example_sales [1, 2] [7, 8] example_prices)) = Some q \<and> 1 \<le> q) \<and>
   (\<exists>q. sale.quantity (clean_sales iso_date example_file ! 1) = Some q \<and> 1 \<le> q)"
proof -
  let ?v = "validate_sales_data example_sales [1, 2] [7, 8] example_prices"
  let ?c = "clean_sales iso_date example_file"
  note inst = quantity_floor [of example_sales "[1, 2]" "[7, 8]" example_prices iso_date]
  note inst2 = quantity_floor [of example_file "[1, 2]" "[7, 8]" example_prices iso_date]
  have v: "map sale.quantity ?v = [Some 3, Some 1]"
    using inst by (simp add: example_sales_def csv_sale_def critical_present_def)
  have c: "map sale.quantity ?c = [Some 3, Some 1, Some 1, Some 1]"
    using inst2 by (simp add: example_file_def csv_sale_def)
  from v have "?v \<noteq> []" by auto
  then have lv: "last ?v \<in> set ?v" by simp
  have "length ?c = 4" by (simp add: clean_sales_eq example_file_def)
  then have lc: "?c ! 1 \<in> set ?c" by simp
  from inst lv have 1: "\<exists>q. sale.quantity (last ?v) = Some q \<and> 1 \<le> q" by blast
  from inst2 lc have 2: "\<exists>q. sale.quantity (?c ! 1) = Some q \<and> 1 \<le> q" by blast
  from v c 1 2 show ?thesis by blast
qed


text \<open>
  Claim C10. \<^verbatim>\<open>clean_sales\<close> never drops a row: the output has the rows of the input in
  their order, a missing product or customer key is replaced by -1, a date that does
  not parse with the format (or is missing) by 2000-01-01, and so every row of the
  output has a product key, a customer key and a date.
\<close>

theorem clean_sales_keeps_every_row:
  "length (clean_sales strptime df) = length df \<and>
   map sale.transaction_id (clean_sales strptime df) = map sale.transaction_id df \<and>
   map sale.product_id (clean_sales strptime df) =
     map (\<lambda>r. case sale.product_id r of None \<Rightarrow> Some (- 1) | Some k \<Rightarrow> Some k) df \<and>
   map sale.customer_id (clean_sales strptime df) =
     map (\<lambda>r. case sale.customer_id r of None \<Rightarrow> Some (- 1) | Some k \<Rightarrow> Some k) df \<and>
   map sale.transaction_date (clean_sales strptime df) =
     map (\<lambda>r. case sale.transaction_date r of
                 Text s \<Rightarrow> (case strptime s of Some d \<Rightarrow> Stamp d | None \<Rightarrow> Stamp (2000, 1, 1))
               | NaT \<Rightarrow> Stamp (2000, 1, 1)
               | Stamp d \<Rightarrow> Stamp d) df \<and>
   (\<forall>r \<in> set (clean_sales strptime df).
      sale.product_id r \<noteq> None \<and> sale.customer_id r \<noteq> None \<and>
      (\<exists>d. sale.transaction_date r = Stamp d))"
proof -
  have f: "fillna (- 1) x = (case x of None \<Rightarrow> Some (- 1) | Some k \<Rightarrow> Some k)" for x :: "int option"
    by (cases x) auto
  have t: "(case to_datetime strptime c of NaT \<Rightarrow> Stamp (2000, 1, 1) | c' \<Rightarrow> c') =
           (case c of Text s \<Rightarrow> (case strptime s of Some d \<Rightarrow> Stamp d | None \<Rightarrow> Stamp (2000, 1, 1))
               | NaT \<Rightarrow> Stamp (2000, 1, 1) | Stamp d \<Rightarrow> Stamp d)" for c
    by (cases c) (auto split: option.splits)
  have 1: "length (clean_sales strptime df) = length df"
    by (simp add: clean_sales_eq)
  have 2: "map sale.transaction_id (clean_sales strptime df) = map sale.transaction_id df"
    by (simp add: clean_sales_eq comp_def)
  have 3: "map sale.product_id (clean_sales strptime df) =
     map (\<lambda>r. case sale.product_id r of None \<Rightarrow> Some (- 1) | Some k \<Rightarrow> Some k) df"
    by (simp add: clean_sales_eq comp_def f)
  have 4: "map sale.customer_id (clean_sales strptime df) =
     map (\<lambda>r. case sale.customer_id r of None \<Rightarrow> Some (- 1) | Some k \<Rightarrow> Some k) df"
    by (simp add: clean_sales_eq comp_def f)
  have 5: "map sale.transaction_date (clean_sales strptime df) =
     map (\<lambda>r. case sale.transaction_date r of
                 Text s \<Rightarrow> (case strptime s of Some d \<Rightarrow> Stamp d | None \<Rightarrow> Stamp (2000, 1, 1))
               | NaT \<Rightarrow> Stamp (2000, 1, 1)
               | Stamp d \<Rightarrow> Stamp d) df"
    by (simp add: clean_sales_eq comp_def t)
  have 6: "\<forall>r \<in> set (clean_sales strptime df).
      sale.product_id r \<noteq> None \<and> sale.customer_id r \<noteq> None \<and>
      (\<exists>d. sale.transaction_date r = Stamp d)"
    by (auto simp: clean_sales_eq f t split: option.splits datecell.splits)
  from 1 2 3 4 5 6 show ?thesis by blast
qed

theorem clean_sales_keeps_every_row_witness:
  "map sale.product_id (clean_sales iso_date example_file) = [Some 1, Some (- 1), Some 2, Some 2] \<and>
   map sale.customer_id (clean_sales iso_date example_file) = [Some 7, Some (- 1), Some (- 1), Some 8] \<and>
   map sale.transaction_date (clean_sales iso_date example_file) =
     [Stamp (2024, 5, 1), Stamp (2000, 1, 1), Stamp (2000, 1, 1), Stamp (2024, 6, 1)] \<and>
   sale.product_id (clean_sales iso_date example_file ! 1) \<noteq> None \<and>
   sale.customer_id (clean_sales iso_date example_file ! 1) \<noteq> None \<and>
   (\<exists>d. sale.transaction_date (clean_sales iso_date example_file ! 1) = Stamp d)"
proof -
  let ?c = "clean_sales iso_date example_file"
  note inst = clean_sales_keeps_every_row [of iso_date example_file]
  have p: "map sale.product_id ?c = [Some 1, Some (- 1), Some 2, Some 2]"
    using inst by (simp add: example_file_def csv_sale_def)
  have c: "map sale.customer_id ?c = [Some 7, Some (- 1), Some (- 1), Some 8]"
    using inst by (simp add: example_file_def csv_sale_def)
  have d: "map sale.transaction_date ?c =
     [Stamp (2024, 5, 1), Stamp (2000, 1, 1), Stamp (2000, 1, 1), Stamp (2024, 6, 1)]"
    using inst by (simp add: example_file_def csv_sale_def iso1 iso2 iso3 iso4)
  have "length ?c = 4" by (simp add: clean_sales_eq example_file_def)
  then have "?c ! 1 \<in> set ?c" by simp
  with inst have "sale.product_id (?c ! 1) \<noteq> None \<and> sale.customer_id (?c ! 1) \<noteq> None \<and>
      (\<exists>d. sale.transaction_date (?c ! 1) = Stamp d)" by blast
  with p c d show ?thesis by blast
qed


section \<open>Fetching the metadata\<close>

lemma fetch_pages_eq:
  "fetch_pages api max_pages page acc =
     acc @ concat (map (page_items api) (takeWhile (page_continues api) [page..<Suc max_pages]))"
proof (induction api max_pages page acc rule: fetch_pages.induct)
  case (1 api max_pages page acc)
  define rest where "rest = [page + 1..<Suc max_pages]"
  show ?case
  proof (cases "page \<le> max_pages")
    case False
    then have "[page..<Suc max_pages] = []" by simp
    with False show ?thesis by (simp add: fetch_pages.simps [of api max_pages page acc])
  next
    case le: True
    then have upt: "[page..<Suc max_pages] = page # rest"
      unfolding rest_def by (simp add: upt_conv_Cons)
    show ?thesis
    proof (cases "page_continues api page")
      case False
      then have "fetch_pages api max_pages page acc = acc"
        using le by (subst fetch_pages.simps) (auto simp: page_continues_def split: response.splits)
      with False show ?thesis unfolding upt by simp
    next
      case True
      then obtain data where resp: "api page = Response 200 data" and ne: "data \<noteq> []"
        by (auto simp: page_continues_def split: response.splits)
      have items: "page_items api page = data"
        by (simp add: page_items_def resp)
      have "fetch_pages api max_pages page acc = fetch_pages api max_pages (page + 1) (acc @ data)"
        using le resp ne by (subst fetch_pages.simps) simp
      also have "\<dots> = (acc @ data) @ concat (map (page_items api) (takeWhile (page_continues api) rest))"
        unfolding rest_def using "1.IH" [OF le resp _ ne] by simp
      also have "\<dots> = acc @ concat (map (page_items api) (takeWhile (page_continues api) (page # rest)))"
        using True items by simp
      finally show ?thesis unfolding upt .
    qed
  qed
qed

lemma str_int_1: "str_int 1 = ''1''"
  by code_simp

lemma str_int_2: "str_int 2 = ''2''"
  by code_simp

lemma str_strip_1: "str_strip ''1'' = ''1''"
  by (simp add: str_strip_def is_space_def)

lemma str_strip_2: "str_strip ''2'' = ''2''"
  by (simp add: str_strip_def is_space_def)

text \<open>
  Claim C9. The pages that \<^verbatim>\<open>fetch_product_metadata\<close> accumulates are the pages 1, 2, ...
  up to \<^verbatim>\<open>max_pages\<close> before the first page that is empty, answers with a status
  other than 200 or fails with a request exception; the function returns the rows of
  these pages, normalised, and no error. When the first page is already of that kind
  (or \<^verbatim>\<open>max_pages\<close> is 0) the result is the frame without rows whose columns are
  \<^verbatim>\<open>id\<close>, \<^verbatim>\<open>description\<close>, \<^verbatim>\<open>rating\<close>, \<^verbatim>\<open>availability_status\<close> and \<^verbatim>\<open>product_id\<close>.
\<close>

theorem fetch_product_metadata_partial_result:
  "fetch_pages api max_pages 1 [] =
     concat (map (page_items api) (takeWhile (page_continues api) [1..<Suc max_pages])) \<and>
   rows (fetch_product_metadata num_of api max_pages) =
     map (normalize_item num_of) (fetch_pages api max_pages 1 []) \<and>
   (max_pages = 0 \<or> \<not> page_continues api 1 \<longrightarrow>
      fetch_product_metadata num_of api max_pages =
        \<lparr> columns = [''id'', ''description'', ''rating'', ''availability_status'', ''product_id''],
          rows = [] \<rparr>)"
proof -
  have a: "fetch_pages api max_pages 1 [] =
     concat (map (page_items api) (takeWhile (page_continues api) [1..<Suc max_pages]))"
    by (simp add: fetch_pages_eq)
  have b: "rows (fetch_product_metadata num_of api max_pages) =
     map (normalize_item num_of) (fetch_pages api max_pages 1 [])"
    by (simp add: fetch_product_metadata_def Let_def)
  have c: "fetch_product_metadata num_of api max_pages =
        \<lparr> columns = [''id'', ''description'', ''rating'', ''availability_status'', ''product_id''],
          rows = [] \<rparr>" if "max_pages = 0 \<or> \<not> page_continues api 1"
  proof -
    have "takeWhile (page_continues api) [1..<Suc max_pages] = []"
    proof (cases "max_pages = 0")
      case True
      then show ?thesis by simp
    next
      case False
      then have "1 < Suc max_pages" by simp
      then have "[1..<Suc max_pages] = 1 # [Suc 1..<Suc max_pages]"
        by (rule upt_conv_Cons)
      moreover from that False have "\<not> page_continues api 1" by simp
      ultimately show ?thesis by (simp only: takeWhile.simps if_False)
    qed
    with a have "fetch_pages api max_pages 1 [] = []" by simp
    then show ?thesis by (simp add: fetch_product_metadata_def Let_def)
  qed
  from a b c show ?thesis by blast
qed

theorem fetch_product_metadata_partial_result_witness:
  "rows (fetch_product_metadata int_literal example_api 5) =
     [\<lparr> metadata.id = ''1'', metadata.description = Some ''A lamp'', metadata.rating = Some (9 / 2),
        metadata.availability_status = Some ''In stock'', metadata.product_id_api = Some ''1'' \<rparr>,
      \<lparr> metadata.id = ''2'', metadata.description = Some ''None'', metadata.rating = Some 0,
        metadata.availability_status = Some ''Sold out'', metadata.product_id_api = Some ''2'' \<rparr>] \<and>
   fetch_product_metadata int_literal unreachable_api 5 =
     \<lparr> columns = [''id'', ''description'', ''rating'', ''availability_status'', ''product_id''],
       rows = [] \<rparr>"
proof -
  note inst = fetch_product_metadata_partial_result [of example_api 5 int_literal]
  note inst2 = fetch_product_metadata_partial_result [of unreachable_api 5 int_literal]
  have up: "[1..<Suc 5] = [1, 2, 3, 4, 5]"
    by (simp add: upt_conv_Cons)
  have "fetch_pages example_api 5 1 [] = [item1, item2]"
    using inst unfolding up by (simp add: page_continues_def page_items_def example_api_def)
  with inst have 1: "rows (fetch_product_metadata int_literal example_api 5) =
      map (normalize_item int_literal) [item1, item2]"
    by simp
  have "\<not> page_continues unreachable_api 1"
    by (simp add: page_continues_def unreachable_api_def)
  with inst2 have 2: "fetch_product_metadata int_literal unreachable_api 5 =
     \<lparr> columns = [''id'', ''description'', ''rating'', ''availability_status'', ''product_id''],
       rows = [] \<rparr>"
    by blast
  from 1 2 show ?thesis
    by (simp add: normalize_item_def item1_def item2_def int_literal.simps digit_val_def
          str_int_1 str_int_2 str_strip_1 str_strip_2)
qed


section \<open>The cardinality of the enrichment\<close>

lemma length_merge_left:
  "length (merge_left ps ms) = sum_list (map (\<lambda>p. max 1 (length (matches p ms))) ps)"
proof (induction ps)
  case Nil
  show ?case by (simp add: merge_left_def)
next
  case (Cons p ps)
  have "length (if matches p ms = [] then [unmatched p] else map (attach p) (matches p ms)) =
          max 1 (length (matches p ms))"
    by (cases "matches p ms") auto
  with Cons show ?case by (simp add: merge_left_def)
qed

lemma distinct_filter_le_1:
  "distinct (map g xs) \<Longrightarrow> length (filter (\<lambda>x. g x = k) xs) \<le> 1"
proof (induction xs)
  case Nil
  show ?case by simp
next
  case (Cons x xs)
  show ?case
  proof (cases "g x = k")
    case True
    from Cons.prems have "g x \<notin> g ` set xs" by simp
    with True have "\<forall>y \<in> set xs. g y \<noteq> k" by blast
    then have "filter (\<lambda>x. g x = k) xs = []"
      by (simp add: filter_empty_conv)
    with True show ?thesis by simp
  next
    case False
    with Cons show ?thesis by simp
  qed
qed

lemma length_enrich_product_data:
  "length (enrich_product_data ps md) =
     (if frame_empty md then length ps
      else sum_list (map (\<lambda>p. max 1 (length (filter
              (\<lambda>m. str_strip (metadata.id m) = str_strip (astype_str (product.product_id p)))
              (rows md)))) ps))"
proof (cases "frame_empty md")
  case True
  then show ?thesis by (simp add: enrich_product_data_def)
next
  case False
  have m: "length (matches (p\<lparr>product.product_id := KStr k\<rparr>)
                     (map (\<lambda>m. m\<lparr>metadata.id := str_strip (metadata.id m)\<rparr>) ms)) =
           length (filter (\<lambda>m. str_strip (metadata.id m) = k) ms)" for p k ms
    by (induction ms) (auto simp: matches_def)
  from False show ?thesis
    by (simp add: enrich_product_data_def Let_def length_merge_left comp_def m)
qed



text \<open>
  Claim C1 as stated fails: the left merge repeats a product row once for every
  metadata row with its key. One product with key 1 and two metadata rows with key 1
  give two output rows.
\<close>

theorem enrich_product_data_fans_out:
  "length (enrich_product_data [csv_product 1 None (Some ''Toys'') (Str ''abc'')] duplicate_metadata) = 2"
  by (simp add: length_enrich_product_data frame_empty_def duplicate_metadata_def metadata_columns_def
        metadata_row_def csv_product_def str_int_1 str_strip_1)

text \<open>
  Claim C1, amended. The number of output rows of \<^verbatim>\<open>enrich_product_data\<close> is the sum, over
  the product rows, of the number of metadata rows with the same normalised key, counted
  as 1 when there is none. It is the number of product rows when the metadata frame is
  empty, and when no two metadata rows have the same normalised key.
\<close>

theorem enrich_product_data_cardinality:
  "length (enrich_product_data products_df metadata_df) =
     (if frame_empty metadata_df then length products_df
      else sum_list (map (\<lambda>p. max 1 (length (filter
              (\<lambda>m. str_strip (metadata.id m) = str_strip (astype_str (product.product_id p)))
              (rows metadata_df)))) products_df)) \<and>
   (frame_empty metadata_df \<or> distinct (map (\<lambda>m. str_strip (metadata.id m)) (rows metadata_df)) \<longrightarrow>
      length (enrich_product_data products_df metadata_df) = length products_df)"
proof -
  have "sum_list (map (\<lambda>p. max 1 (length (filter
              (\<lambda>m. str_strip (metadata.id m) = str_strip (astype_str (product.product_id p)))
              (rows metadata_df)))) products_df) = length products_df"
    if d: "distinct (map (\<lambda>m. str_strip (metadata.id m)) (rows metadata_df))"
  proof -
    have "max 1 (length (filter (\<lambda>m. str_strip (metadata.id m) = k) (rows metadata_df))) = 1" for k
      using distinct_filter_le_1 [OF d, of k] by simp
    then show ?thesis by (simp add: sum_list_triv)
  qed
  then show ?thesis by (auto simp: length_enrich_product_data)
qed

theorem enrich_product_data_cardinality_witness:
  "length (enrich_product_data example_products example_metadata) = 3 \<and>
   length (enrich_product_data example_products
             \<lparr> columns = [''id'', ''description'', ''rating'', ''availability_status'', ''product_id''],
               rows = [] \<rparr>) = 3"
proof -
  have d: "distinct (map (\<lambda>m. str_strip (metadata.id m)) (rows example_metadata))"
    by (simp add: example_metadata_def metadata_row_def str_strip_1 str_strip_2)
  have e: "frame_empty \<lparr> columns = [''id'', ''description'', ''rating'', ''availability_status'', ''product_id''],
               rows = [] \<rparr>"
    by (simp add: frame_empty_def)
  have l: "length example_products = 3"
    by (simp add: example_products_def)
  from d e l enrich_product_data_cardinality [of example_products example_metadata]
    enrich_product_data_cardinality [of example_products
      "\<lparr> columns = [''id'', ''description'', ''rating'', ''availability_status'', ''product_id''],
         rows = [] \<rparr>"]
  show ?thesis by simp
qed


section \<open>The watermark of the incremental load\<close>

lemma update_last_processed_date_eq:
  "update_last_processed_date db new_date = (db, [Updated_last_processed_date new_date])"
  by (simp add: update_last_processed_date_def engine_connect_def execute_upsert_def
        connection_close_def Let_def)

text \<open>What the sibling functions do and this one does not: with a commit the date is stored.\<close>

lemma committed_upsert_is_stored:
  "etl_state (connection_close (connection_commit (execute_upsert (engine_connect db) new_date))) =
     Some new_date"
  by (simp add: engine_connect_def execute_upsert_def connection_commit_def connection_close_def)

lemma process_sales_data_stored:
  "etl_state db = Some w \<Longrightarrow>
   process_sales_data date_of sales_file db = (db, [Error_processing_sales_data TypeError])"
  by (simp add: process_sales_data_def process_sales_data_body_def get_last_processed_date_def
        series_gt_def Let_def)

lemma process_sales_data_absent:
  "etl_state db = None \<Longrightarrow>
   fst (process_sales_data date_of sales_file db) =
     db\<lparr>sales_table := sales_table db @
          filter (\<lambda>r. sale.transaction_date r \<noteq> NaT)
            (map (\<lambda>r. r\<lparr>sale.transaction_date := to_datetime date_of (sale.transaction_date r)\<rparr>)
               sales_file)\<rparr>"
  by (simp add: process_sales_data_def process_sales_data_body_def get_last_processed_date_def
        to_sql_append_def update_last_processed_date_eq Let_def split: option.splits)







lemma parsed_example_file:
  "filter (\<lambda>r. sale.transaction_date r \<noteq> NaT)
     (map (\<lambda>r. r\<lparr>sale.transaction_date := to_datetime iso_date (sale.transaction_date r)\<rparr>)
        example_file) =
   [csv_sale 1 (Some 1) (Some 7) (Some 3) (Stamp (2024, 5, 1)),
    csv_sale 4 (Some 2) (Some 8) (Some 0) (Stamp (2024, 6, 1))]"
  by (simp add: example_file_def csv_sale_def iso1 iso2 iso3 iso4)

text \<open>
  Claim C3 is not what the code does. Starting without a watermark, a run on a file
  whose dated rows are those of 1 May and 1 June 2024 appends the two rows and logs
  that the date was updated to 1 June 2024, but no watermark is stored afterwards: the
  upsert is never committed. A second run on the same file therefore appends the two
  rows again. With a watermark stored, a file with later rows raises the type error of
  the comparison: the error is logged, nothing is appended and the watermark stays.
\<close>

theorem process_sales_data_loses_watermark:
  "map sale.transaction_id (sales_table (fst (process_sales_data iso_date example_file empty_db))) = [1, 4] \<and>
   etl_state (fst (process_sales_data iso_date example_file empty_db)) = None \<and>
   snd (process_sales_data iso_date example_file empty_db) = [Updated_last_processed_date (2024, 6, 1)] \<and>
   map sale.transaction_id (sales_table (runs iso_date [example_file, example_file] empty_db)) =
     [1, 4, 1, 4] \<and>
   process_sales_data iso_date later_file example_db =
     (example_db, [Error_processing_sales_data TypeError])"
proof -
  have e: "etl_state empty_db = None" "sales_table empty_db = []"
    by (simp_all add: empty_db_def)
  let ?db1 = "fst (process_sales_data iso_date example_file empty_db)"
  have db1: "?db1 = empty_db\<lparr>sales_table :=
      [csv_sale 1 (Some 1) (Some 7) (Some 3) (Stamp (2024, 5, 1)),
       csv_sale 4 (Some 2) (Some 8) (Some 0) (Stamp (2024, 6, 1))]\<rparr>"
    unfolding process_sales_data_absent [OF e(1)] parsed_example_file by (simp add: e)
  have 1: "map sale.transaction_id (sales_table ?db1) = [1, 4]"
    unfolding db1 by (simp add: csv_sale_def)
  have 2: "etl_state ?db1 = None"
    unfolding db1 by (simp add: e)
  have 3: "snd (process_sales_data iso_date example_file empty_db) =
      [Updated_last_processed_date (2024, 6, 1)]"
    unfolding process_sales_data_def process_sales_data_body_def get_last_processed_date_def Let_def
      e parsed_example_file
    by (simp add: update_last_processed_date_eq List.map_filter_def csv_sale_def)
  have "runs iso_date [example_file, example_file] empty_db =
      fst (process_sales_data iso_date example_file ?db1)"
    by (simp add: runs_def)
  also have "\<dots> = ?db1\<lparr>sales_table := sales_table ?db1 @
      [csv_sale 1 (Some 1) (Some 7) (Some 3) (Stamp (2024, 5, 1)),
       csv_sale 4 (Some 2) (Some 8) (Some 0) (Stamp (2024, 6, 1))]\<rparr>"
    unfolding process_sales_data_absent [OF 2] parsed_example_file ..
  finally have 4: "map sale.transaction_id
      (sales_table (runs iso_date [example_file, example_file] empty_db)) = [1, 4, 1, 4]"
    using 1 by (simp add: csv_sale_def)
  have 5: "process_sales_data iso_date later_file example_db =
     (example_db, [Error_processing_sales_data TypeError])"
    by (rule process_sales_data_stored) (simp add: example_db_def)
  from 1 2 3 4 5 show ?thesis by blast
qed


section \<open>Prices and popularity of products\<close>

lemma to_numeric_cases:
  "to_numeric num_of c = NaN \<or> (\<exists>x. to_numeric num_of c = Num x)"
  by (cases c) (auto split: option.splits)

lemma abs_price_cases:
  "cell_abs (to_numeric num_of c) = NaN \<or> (\<exists>x. cell_abs (to_numeric num_of c) = Num x \<and> 0 \<le> x)"
  using to_numeric_cases [of num_of c] by auto

lemma clip_price_cases:
  "\<exists>x. clip_lower 0 (fillna_cell 0 (to_numeric num_of c)) = Num x \<and> 0 \<le> x"
  using to_numeric_cases [of num_of c] by auto

lemma transform_products_price:
  "map product.price (transform_products num_of ps sales) =
     map (\<lambda>p. cell_abs (to_numeric num_of (product.price p))) ps"
  by (simp add: transform_products_def Let_def comp_def split: option.splits)

lemma clean_products_price:
  "map product.price (clean_products num_of df) =
     map (\<lambda>p. clip_lower 0 (fillna_cell 0 (to_numeric num_of (product.price p)))) df"
  by (simp add: clean_products_def Let_def comp_def)

lemma int_literal_abc: "int_literal ''abc'' = None"
  by (simp add: int_literal.simps digit_val_def)

lemma int_literal_12: "int_literal ''12'' = Some 12"
  by (simp add: int_literal.simps digit_val_def)

text \<open>
  Claim C6 as stated fails in each of the two functions it names. In
  \<^verbatim>\<open>transform_products\<close> the price \<^verbatim>\<open>abc\<close> of the scenario becomes NaN, not 0: the
  absolute value of the coerced column is taken and nothing fills the NaN. In
  \<^verbatim>\<open>clean_products\<close> the price -5 becomes 0, not its absolute value 5: the column is
  clipped from below.
\<close>

theorem price_not_as_claimed:
  "map product.price (transform_products int_literal [csv_product 1 None (Some ''Toys'') (Str ''abc'')] []) = [NaN] \<and>
   map product.price (clean_products int_literal [csv_product 2 (Some ''Lamp'') (Some ''Electronics'') (Num (- 5))]) = [Num 0]"
  by (simp add: transform_products_price clean_products_price csv_product_def int_literal_abc)

text \<open>
  Claim C6, amended. After \<^verbatim>\<open>transform_products\<close> a price that parses as a number is
  replaced by its absolute value and a price that does not parse (or is missing) is
  NaN; every price is NaN or a non-negative number. After \<^verbatim>\<open>clean_products\<close> every
  price is a defined non-negative number: a parsed price that is not negative is kept,
  a negative one becomes 0, and one that does not parse (or is missing) becomes 0, so
  the product with price \<^verbatim>\<open>abc\<close> ends \<^verbatim>\<open>clean_products\<close> with price 0.
\<close>

theorem product_price_after_transform:
  "map product.price (transform_products num_of products_df sales_df) =
     map (\<lambda>p. case to_numeric num_of (product.price p) of Num x \<Rightarrow> Num \<bar>x\<bar> | _ \<Rightarrow> NaN) products_df \<and>
   map product.price (clean_products num_of products_df) =
     map (\<lambda>p. case to_numeric num_of (product.price p) of
                 Num x \<Rightarrow> Num (if x < 0 then 0 else x) | _ \<Rightarrow> Num 0) products_df \<and>
   (\<forall>p \<in> set (transform_products num_of products_df sales_df).
      product.price p = NaN \<or> (\<exists>x. product.price p = Num x \<and> 0 \<le> x)) \<and>
   (\<forall>p \<in> set (clean_products num_of products_df). \<exists>x. product.price p = Num x \<and> 0 \<le> x)"
proof -
  have a: "cell_abs (to_numeric num_of c) =
      (case to_numeric num_of c of Num x \<Rightarrow> Num \<bar>x\<bar> | _ \<Rightarrow> NaN)" for c
    using to_numeric_cases [of num_of c] by auto
  have b: "clip_lower 0 (fillna_cell 0 (to_numeric num_of c)) =
      (case to_numeric num_of c of Num x \<Rightarrow> Num (if x < 0 then 0 else x) | _ \<Rightarrow> Num 0)" for c
    using to_numeric_cases [of num_of c] by (auto simp: max_def)
  have 1: "map product.price (transform_products num_of products_df sales_df) =
     map (\<lambda>p. case to_numeric num_of (product.price p) of Num x \<Rightarrow> Num \<bar>x\<bar> | _ \<Rightarrow> NaN) products_df"
    by (simp add: transform_products_price a)
  have 2: "map product.price (clean_products num_of products_df) =
     map (\<lambda>p. case to_numeric num_of (product.price p) of
                 Num x \<Rightarrow> Num (if x < 0 then 0 else x) | _ \<Rightarrow> Num 0) products_df"
    by (simp add: clean_products_price b)
  have 3: "product.price p = NaN \<or> (\<exists>x. product.price p = Num x \<and> 0 \<le> x)"
    if "p \<in> set (transform_products num_of products_df sales_df)" for p
  proof -
    from that have "product.price p \<in> set (map product.price (transform_products num_of products_df sales_df))"
      by simp
    then have "\<exists>p0 \<in> set products_df. product.price p = cell_abs (to_numeric num_of (product.price p0))"
      unfolding transform_products_price set_map image_iff .
    then obtain p0 :: product where "product.price p = cell_abs (to_numeric num_of (product.price p0))"
      by blast
    with abs_price_cases [of num_of "product.price p0"] show ?thesis by simp
  qed
  have 4: "\<exists>x. product.price p = Num x \<and> 0 \<le> x"
    if "p \<in> set (clean_products num_of products_df)" for p
  proof -
    from that have "product.price p \<in> set (map product.price (clean_products num_of products_df))"
      by simp
    then have "\<exists>p0 \<in> set products_df.
        product.price p = clip_lower 0 (fillna_cell 0 (to_numeric num_of (product.price p0)))"
      unfolding clean_products_price set_map image_iff .
    then obtain p0 :: product where
      "product.price p = clip_lower 0 (fillna_cell 0 (to_numeric num_of (product.price p0)))"
      by blast
    with clip_price_cases [of num_of "product.price p0"] show ?thesis by simp
  qed
  from 1 2 3 4 show ?thesis by blast
qed

theorem product_price_after_transform_witness:
  "map product.price (transform_products int_literal example_products example_file) =
     [NaN, Num 5, Num 12] \<and>
   map product.price (clean_products int_literal example_products) = [Num 0, Num 0, Num 12] \<and>
   (\<exists>x. product.price (clean_products int_literal example_products ! 0) = Num x \<and> 0 \<le> x) \<and>
   (\<exists>x. product.price (transform_products int_literal example_products example_file ! 1) = Num x \<and> 0 \<le> x)"
proof -
  let ?t = "transform_products int_literal example_products example_file"
  let ?c = "clean_products int_literal example_products"
  note inst = product_price_after_transform [of int_literal example_products example_file]
  have 1: "map product.price ?t = [NaN, Num 5, Num 12]"
    using inst by (simp add: example_products_def csv_product_def int_literal_abc int_literal_12)
  have 2: "map product.price ?c = [Num 0, Num 0, Num 12]"
    using inst by (simp add: example_products_def csv_product_def int_literal_abc int_literal_12)
  from 2 have "length (map product.price ?c) = 3" by simp
  then have "?c ! 0 \<in> set ?c" by simp
  with inst have 3: "\<exists>x. product.price (?c ! 0) = Num x \<and> 0 \<le> x" by blast
  from 1 have "length (map product.price ?t) = 3" by simp
  then have len: "length ?t = 3" by simp
  then have mem: "?t ! 1 \<in> set ?t" by simp
  from 1 len have "product.price (?t ! 1) = Num 5"
    by (metis nth_map nth_Cons_0 nth_Cons_Suc One_nat_def lessI numeral_3_eq_3 Suc_lessD)
  then have 4: "\<exists>x. product.price (?t ! 1) = Num x \<and> 0 \<le> x" by simp
  from inst mem have "product.price (?t ! 1) = NaN \<or> (\<exists>x. product.price (?t ! 1) = Num x \<and> 0 \<le> x)"
    by blast
  with 1 2 3 4 show ?thesis by blast
qed
























section \<open>The transformed sales\<close>










end
